theory Spec2Isabelle
  imports Main "HOL-Library.Multiset"
begin

section \<open>Strings and JSON values as the handlers see them\<close>

text \<open>
  A string is a list of code units below 256. Within that range the white space that
  JavaScript's \<open>String.prototype.trim\<close> removes is TAB, LF, VT, FF, CR, SPACE and the
  no-break space U+00A0.
\<close>

definition isWhiteSpace :: "char \<Rightarrow> bool" where
  "isWhiteSpace c = List.member [9, 10, 11, 12, 13, 32, 160 :: nat] (of_char c)"

definition trim :: "string \<Rightarrow> string" where
  "trim s = rev (dropWhile isWhiteSpace (rev (dropWhile isWhiteSpace s)))"

definition toLower :: "char \<Rightarrow> char" where
  "toLower c = (let n = (of_char c :: nat) in if 65 \<le> n \<and> n \<le> 90 then char_of (n + 32) else c)"

text \<open>Equality of two texts up to the case of the ASCII letters.\<close>

definition equalIgnoreCase :: "string \<Rightarrow> string \<Rightarrow> bool" where
  "equalIgnoreCase a b = (map toLower a = map toLower b)"

text \<open>
  The values a field of the parsed JSON body can hold: absent, \<open>null\<close>, a boolean or a
  string. (Numbers, arrays and objects are not modelled.)
\<close>

datatype jsval = JUndefined | JNull | JBool bool | JStr string

text \<open>JavaScript truthiness, as used by \<open>!text\<close>.\<close>

fun truthy :: "jsval \<Rightarrow> bool" where
  "truthy JUndefined = False"
| "truthy JNull = False"
| "truthy (JBool b) = b"
| "truthy (JStr s) = (s \<noteq> [])"

text \<open>
  Errors thrown inside a handler's \<open>try\<close> block: a method call on a value that has no
  such method, an identifier that does not cast to an ObjectId, a document rejected by
  the schema's validators, a pattern the store's regular-expression engine rejects.
\<close>

datatype failure = TypeError | CastError string | ValidationError | RegexError string

text \<open>\<open>text.trim()\<close>: only a string has the method.\<close>

fun callTrim :: "jsval \<Rightarrow> failure + string" where
  "callTrim (JStr s) = Inr (trim s)"
| "callTrim v = Inl TypeError"

section \<open>Documents, requests and responses\<close>

record todo =
  t_id :: string
  t_text :: string
  t_completed :: bool
  t_createdAt :: int

record body =
  b_text :: jsval
  b_completed :: jsval

text \<open>
  The \<open>message\<close> field of a response body is either a literal of the handler or the
  message of the error the handler caught.
\<close>

datatype message = Lit string | Thrown failure

datatype payload = Message message | Doc todo | Docs "todo list"

datatype response = Response (status: nat) (payload: payload)

text \<open>The collection, in insertion order.\<close>

type_synonym collection = "todo list"

section \<open>The store\<close>

text \<open>
  What the handlers use of the MongoDB driver and server and cannot be read off the
  repository. An identifier is stored as an ObjectId; a document carries it in
  \<open>t_id\<close> in its string form, the one the JSON of a response shows. \<open>castObjectId\<close>
  is Mongoose's cast of the string of a request to an ObjectId, given by the string form
  of the result (\<open>None\<close>: the string does not cast, a CastError is thrown); two
  spellings of one ObjectId cast to the same string form. \<open>compileRegexI\<close> is the
  regular-expression engine behind \<open>$regex\<close> with \<open>$options: 'i'\<close> (\<open>None\<close>: the pattern
  is rejected; otherwise the predicate "the pattern matches somewhere in the subject").
\<close>

record mongo =
  castObjectId :: "string \<Rightarrow> string option"
  compileRegexI :: "string \<Rightarrow> (string \<Rightarrow> bool) option"

text \<open>
  Modelled from the spec: \<open>App/server/models/Todo.js\<close>, the Mongoose schema of a todo, is
  not among the sources. The spec's data model gives \<open>text\<close> (a string, required, stored
  trimmed: "Fails with ValidationError if text is empty after trim"), \<open>completed\<close> (boolean,
  default false) and \<open>createdAt\<close> (assigned at creation). This is the setter of
  \<open>text\<close>: the value is stored trimmed.
\<close>

definition schemaSetText :: "string \<Rightarrow> string" where
  "schemaSetText s = trim s"

text \<open>
  Modelled from the spec: the validator of \<open>text\<close> in the same missing schema,
  \<open>App/server/models/Todo.js\<close>. The field is required: after the setter, the string
  must not be empty.
\<close>

definition schemaTextRequired :: "string \<Rightarrow> bool" where
  "schemaTextRequired s = (s \<noteq> [])"

text \<open>Mongoose's cast of a field value to the schema type String.\<close>

fun castString :: "jsval \<Rightarrow> string option" where
  "castString (JStr s) = Some s"
| "castString (JBool b) = Some (if b then ''true'' else ''false'')"
| "castString v = None"

text \<open>
  \<open>new Todo({ text }).save()\<close>: the identifier and the creation time are generated at
  that moment and are inputs here; \<open>completed\<close> takes the default the spec gives, false;
  the document is validated and, when valid, appended.
\<close>

definition save :: "string \<Rightarrow> int \<Rightarrow> jsval \<Rightarrow> collection \<Rightarrow> failure + (collection \<times> todo)" where
  "save newId now v db =
     (case castString v of
        None \<Rightarrow> Inl ValidationError
      | Some s \<Rightarrow>
          (let doc = \<lparr>t_id = newId, t_text = schemaSetText s, t_completed = False, t_createdAt = now\<rparr>
           in if schemaTextRequired (t_text doc) then Inr (db @ [doc], doc) else Inl ValidationError))"

text \<open>\<open>Todo.find().sort({ createdAt: -1 })\<close>.\<close>

definition findSorted :: "collection \<Rightarrow> todo list" where
  "findSorted db = sort_key (\<lambda>d. - t_createdAt d) db"

text \<open>
  \<open>Todo.findByIdAndDelete(id)\<close>: the string is cast, and the document whose identifier
  is the resulting ObjectId is removed and returned, or none is.
\<close>

definition findByIdAndDelete :: "mongo \<Rightarrow> string \<Rightarrow> collection \<Rightarrow> failure + (collection \<times> todo option)" where
  "findByIdAndDelete M i db =
     (case castObjectId M i of
        None \<Rightarrow> Inl (CastError i)
      | Some oid \<Rightarrow>
          (case find (\<lambda>d. t_id d = oid) db of
             None \<Rightarrow> Inr (db, None)
           | Some d \<Rightarrow> Inr (remove1 d db, Some d)))"

text \<open>
  \<open>Todo.findOne({ text: { $regex: p, $options: 'i' }, _id: { $ne: id } })\<close>: the first
  document whose text the pattern matches and whose identifier is not the ObjectId the
  string casts to.
\<close>

definition findOneRegexNe :: "mongo \<Rightarrow> string \<Rightarrow> string \<Rightarrow> collection \<Rightarrow> failure + todo option" where
  "findOneRegexNe M p i db =
     (case castObjectId M i of
        None \<Rightarrow> Inl (CastError i)
      | Some oid \<Rightarrow>
          (case compileRegexI M p of
             None \<Rightarrow> Inl (RegexError p)
           | Some matches \<Rightarrow> Inr (find (\<lambda>d. matches (t_text d) \<and> t_id d \<noteq> oid) db)))"

text \<open>The first document with the identifier is replaced by its image.\<close>

fun updateOne :: "string \<Rightarrow> (todo \<Rightarrow> todo) \<Rightarrow> collection \<Rightarrow> collection" where
  "updateOne i f [] = []"
| "updateOne i f (d # ds) = (if t_id d = i then f d # ds else d # updateOne i f ds)"

text \<open>
  \<open>Todo.findByIdAndUpdate(id, { text: s }, { new: true })\<close>: the string is cast; the
  schema's setter runs on the new value (validators do not run on updates); the
  document as it is after the update is returned, or none.
\<close>

definition findByIdAndUpdate :: "mongo \<Rightarrow> string \<Rightarrow> string \<Rightarrow> collection \<Rightarrow> failure + (collection \<times> todo option)" where
  "findByIdAndUpdate M i s db =
     (case castObjectId M i of
        None \<Rightarrow> Inl (CastError i)
      | Some oid \<Rightarrow>
          (case find (\<lambda>d. t_id d = oid) db of
             None \<Rightarrow> Inr (db, None)
           | Some d \<Rightarrow>
               Inr (updateOne oid (\<lambda>d. d\<lparr>t_text := schemaSetText s\<rparr>) db,
                    Some (d\<lparr>t_text := schemaSetText s\<rparr>))))"

section \<open>The API handlers of server.js\<close>

text \<open>Each handler takes the collection and returns the collection and the response.\<close>

definition get_todos :: "collection \<Rightarrow> collection \<times> response" where
  "get_todos db = (db, Response 200 (Docs (findSorted db)))"

definition post_todos :: "string \<Rightarrow> int \<Rightarrow> body \<Rightarrow> collection \<Rightarrow> collection \<times> response" where
  "post_todos newId now b db =
     (if truthy (b_text b)
      then (case save newId now (b_text b) db of
              Inl e \<Rightarrow> (db, Response 400 (Message (Thrown e)))
            | Inr (db', newTodo) \<Rightarrow> (db', Response 201 (Doc newTodo)))
      else (db, Response 400 (Message (Lit ''Text is required''))))"

definition delete_todo :: "mongo \<Rightarrow> string \<Rightarrow> collection \<Rightarrow> collection \<times> response" where
  "delete_todo M i db =
     (case findByIdAndDelete M i db of
        Inl e \<Rightarrow> (db, Response 500 (Message (Thrown e)))
      | Inr (db', None) \<Rightarrow> (db', Response 404 (Message (Lit ''Todo not found'')))
      | Inr (db', Some d) \<Rightarrow> (db', Response 200 (Message (Lit ''Todo deleted successfully''))))"

definition patch_todo :: "mongo \<Rightarrow> string \<Rightarrow> body \<Rightarrow> collection \<Rightarrow> collection \<times> response" where
  "patch_todo M i b db =
     (if truthy (b_text b)
      then (case callTrim (b_text b) of
              Inl e \<Rightarrow> (db, Response 500 (Message (Thrown e)))
            | Inr s \<Rightarrow>
                if s = [] then (db, Response 400 (Message (Lit ''Text is required'')))
                else (case findOneRegexNe M (''^'' @ s @ ''$'') i db of
                        Inl e \<Rightarrow> (db, Response 500 (Message (Thrown e)))
                      | Inr (Some duplicate) \<Rightarrow> (db, Response 400 (Message (Lit ''Duplicate todo text'')))
                      | Inr None \<Rightarrow>
                          (case findByIdAndUpdate M i s db of
                             Inl e \<Rightarrow> (db, Response 500 (Message (Thrown e)))
                           | Inr (db', None) \<Rightarrow> (db', Response 404 (Message (Lit ''Todo not found'')))
                           | Inr (db', Some d) \<Rightarrow> (db', Response 200 (Doc d)))))
      else (db, Response 400 (Message (Lit ''Text is required''))))"

section \<open>The client controller\<close>

text \<open>
  \<open>axios.patch\<close> resolves on a status from 200 to 299 and throws otherwise; the
  \<open>catch\<close> of \<open>editTodo\<close> then returns the response's \<open>message\<close> when it has a truthy
  one (the message of a caught error is taken to be non-empty) and a default text
  otherwise.
\<close>

definition resolves :: "response \<Rightarrow> bool" where
  "resolves r = (200 \<le> status r \<and> status r < 300)"

fun errorMessage :: "response \<Rightarrow> message" where
  "errorMessage (Response st (Message (Lit m))) =
     (if m \<noteq> [] then Lit m else Lit ''An error occurred while editing the todo'')"
| "errorMessage (Response st (Message (Thrown e))) = Thrown e"
| "errorMessage (Response st p) = Lit ''An error occurred while editing the todo''"

text \<open>
  \<open>editTodo(id, text?, completed?)\<close> on the pair of the server's collection and the
  client's list \<open>todos\<close>; an argument that is \<open>undefined\<close> or \<open>null\<close> is \<open>None\<close>. The
  result is \<open>None\<close> for the \<open>null\<close> of a success and the message otherwise.
\<close>

definition editTodo ::
  "mongo \<Rightarrow> string \<Rightarrow> string option \<Rightarrow> bool option \<Rightarrow> collection \<times> todo list
     \<Rightarrow> (collection \<times> todo list) \<times> message option" where
  "editTodo M i text_arg completed_arg st =
     (case st of (db, todos) \<Rightarrow>
        (case (if text_arg = None then None
               else if trim (the text_arg) = [] then None else text_arg) of
           Some s \<Rightarrow>
             (case patch_todo M i \<lparr>b_text = JStr s, b_completed = JUndefined\<rparr> db of
                (db', r) \<Rightarrow>
                  if resolves r
                  then ((db', map (\<lambda>d. if t_id d = i then d\<lparr>t_text := s\<rparr> else d) todos), None)
                  else ((db', todos), Some (errorMessage r)))
         | None \<Rightarrow>
             (case completed_arg of
                Some c \<Rightarrow>
                  (case patch_todo M i \<lparr>b_text = JUndefined, b_completed = JBool c\<rparr> db of
                     (db', r) \<Rightarrow>
                       if resolves r
                       then ((db', map (\<lambda>d. if t_id d = i then d\<lparr>t_completed := c\<rparr> else d) todos), None)
                       else ((db', todos), Some (errorMessage r)))
              | None \<Rightarrow> ((db, todos), None))))"

section \<open>A concrete store for evaluation\<close>

text \<open>
  A string casts to an ObjectId when it is 24 hexadecimal digits, in either case; the
  string form of an ObjectId is written with the lower-case digits.
\<close>

definition isHexDigit :: "char \<Rightarrow> bool" where
  "isHexDigit c =
     (let n = (of_char c :: nat)
      in (48 \<le> n \<and> n \<le> 57) \<or> (65 \<le> n \<and> n \<le> 70) \<or> (97 \<le> n \<and> n \<le> 102))"

definition isObjectIdString :: "string \<Rightarrow> bool" where
  "isObjectIdString s = (length s = 24 \<and> list_all isHexDigit s)"

definition objectIdOfString :: "string \<Rightarrow> string option" where
  "objectIdOfString s = (if isObjectIdString s then Some (map toLower s) else None)"

text \<open>
  A fragment of the Perl-compatible syntax the store compiles, enough for flat
  patterns: a literal character, \<open>.\<close> (any character but LF), a backslash before a
  character that is neither a letter nor a digit (that character, literally), one of
  the quantifiers \<open>?\<close>, \<open>*\<close>, \<open>+\<close> after such an item, and the assertions \<open>^\<close> (start of
  the subject) and \<open>$\<close> (end of the subject, or before a final LF). Letters are compared
  up to ASCII case. Anything else gives \<open>None\<close>: that is the engine's answer for a
  quantifier with nothing to repeat, an unclosed group or class and the like, and it is
  the limit of this matcher for the valid patterns it does not cover (groups,
  alternatives, classes, braces, a backslash before a letter or digit, a quantifier
  after another one). Below, \<open>regexI\<close> is only evaluated on patterns of the fragment.
\<close>

datatype atom = Chr char | Dot

datatype quant = Once | Opt | Star | Plus

datatype item = IAtom atom | IQuant quant | IBol | IEol | IOther

datatype tok = Rep atom quant | Bol | Eol

definition isAlnum :: "char \<Rightarrow> bool" where
  "isAlnum c =
     (let n = (of_char c :: nat)
      in (48 \<le> n \<and> n \<le> 57) \<or> (65 \<le> n \<and> n \<le> 90) \<or> (97 \<le> n \<and> n \<le> 122))"

definition plainItem :: "char \<Rightarrow> item" where
  "plainItem c =
     (if c = CHR ''.'' then IAtom Dot
      else if c = CHR ''?'' then IQuant Opt
      else if c = CHR ''*'' then IQuant Star
      else if c = CHR ''+'' then IQuant Plus
      else if c = CHR ''^'' then IBol
      else if c = CHR ''$'' then IEol
      else if List.member ''()[{|'' c then IOther
      else IAtom (Chr c))"

fun lexItems :: "string \<Rightarrow> item list" where
  "lexItems [] = []"
| "lexItems [c] = (if c = CHR 0x5C then [IOther] else [plainItem c])"
| "lexItems (c # d # cs) =
     (if c = CHR 0x5C
      then (if isAlnum d then IOther else IAtom (Chr d)) # lexItems cs
      else plainItem c # lexItems (d # cs))"

fun groupItems :: "item list \<Rightarrow> tok list option" where
  "groupItems [] = Some []"
| "groupItems (IAtom a # IQuant q # IQuant q' # r) = None"
| "groupItems (IAtom a # IQuant q # r) = map_option (Cons (Rep a q)) (groupItems r)"
| "groupItems (IAtom a # r) = map_option (Cons (Rep a Once)) (groupItems r)"
| "groupItems (IBol # r) = map_option (Cons Bol) (groupItems r)"
| "groupItems (IEol # r) = map_option (Cons Eol) (groupItems r)"
| "groupItems (IQuant q # r) = None"
| "groupItems (IOther # r) = None"

fun atomOk :: "atom \<Rightarrow> char \<Rightarrow> bool" where
  "atomOk (Chr x) c = (toLower x = toLower c)"
| "atomOk Dot c = (c \<noteq> CHR 0x0A)"

text \<open>
  \<open>matchHere atStart ts s\<close>: the tokens match a prefix of \<open>s\<close>, where \<open>atStart\<close> says
  that \<open>s\<close> is the whole subject.
\<close>

fun matchHere :: "bool \<Rightarrow> tok list \<Rightarrow> string \<Rightarrow> bool" where
  "matchHere b [] s = True"
| "matchHere b (Bol # ts) s = (if b then matchHere b ts s else False)"
| "matchHere b (Eol # ts) s = (if s = [] \<or> s = [CHR 0x0A] then matchHere b ts s else False)"
| "matchHere b (Rep a Once # ts) [] = False"
| "matchHere b (Rep a Once # ts) (c # cs) = (if atomOk a c then matchHere False ts cs else False)"
| "matchHere b (Rep a Opt # ts) [] = matchHere b ts []"
| "matchHere b (Rep a Opt # ts) (c # cs) =
     (if atomOk a c \<and> matchHere False ts cs then True else matchHere b ts (c # cs))"
| "matchHere b (Rep a Star # ts) [] = matchHere b ts []"
| "matchHere b (Rep a Star # ts) (c # cs) =
     (if atomOk a c \<and> matchHere False (Rep a Star # ts) cs then True else matchHere b ts (c # cs))"
| "matchHere b (Rep a Plus # ts) [] = False"
| "matchHere b (Rep a Plus # ts) (c # cs) =
     (if atomOk a c then matchHere False (Rep a Star # ts) cs else False)"

fun matchAnywhere :: "bool \<Rightarrow> tok list \<Rightarrow> string \<Rightarrow> bool" where
  "matchAnywhere b ts [] = matchHere b ts []"
| "matchAnywhere b ts (c # cs) = (if matchHere b ts (c # cs) then True else matchAnywhere False ts cs)"

definition regexI :: "string \<Rightarrow> (string \<Rightarrow> bool) option" where
  "regexI p = map_option (matchAnywhere True) (groupItems (lexItems p))"

definition mongo0 :: mongo where
  "mongo0 = \<lparr>castObjectId = objectIdOfString, compileRegexI = regexI\<rparr>"

section \<open>The invariant of the stored texts\<close>

text \<open>Every stored text is non-empty after trimming.\<close>

definition textsNonBlank :: "collection \<Rightarrow> bool" where
  "textsNonBlank db = list_all (\<lambda>d. trim (t_text d) \<noteq> []) db"

text \<open>The collections the mutating handlers can produce from the empty one.\<close>

inductive reachable :: "mongo \<Rightarrow> collection \<Rightarrow> bool" for M :: mongo where
  start: "reachable M []"
| post: "reachable M db \<Longrightarrow> reachable M (fst (post_todos newId now b db))"
| patch: "reachable M db \<Longrightarrow> reachable M (fst (patch_todo M i b db))"
| delete: "reachable M db \<Longrightarrow> reachable M (fst (delete_todo M i db))"

section \<open>Example documents\<close>

definition milk :: todo where
  "milk = \<lparr>t_id = ''507f1f77bcf86cd799439011'', t_text = ''Buy milk'', t_completed = False, t_createdAt = 1\<rparr>"

definition mom :: todo where
  "mom = \<lparr>t_id = ''507f1f77bcf86cd799439012'', t_text = ''Call mom?'', t_completed = False, t_createdAt = 2\<rparr>"

section \<open>Auxiliary facts\<close>

lemma dropWhile_rev_dropWhile:
  "dropWhile P (rev (dropWhile P (rev (dropWhile P s)))) = rev (dropWhile P (rev (dropWhile P s)))"
proof (cases "dropWhile P (rev (dropWhile P s)) = []")
  case True
  show ?thesis unfolding True by simp
next
  case False
  define ys where "ys = dropWhile P s"
  define zs where "zs = dropWhile P (rev ys)"
  from False have zs_ne: "zs \<noteq> []" by (simp add: zs_def ys_def)
  then have ys_ne: "ys \<noteq> []" by (auto simp: zs_def)
  then have hd_ys: "\<not> P (hd ys)" unfolding ys_def by (rule hd_dropWhile)
  from zs_ne obtain x where x: "x \<in> set (rev ys)" "\<not> P x"
    unfolding zs_def by (auto simp: dropWhile_eq_Nil_conv)
  then have "last zs = last (rev ys)" unfolding zs_def by (rule dropWhile_last)
  also have "\<dots> = hd ys" using ys_ne by (simp add: last_rev)
  finally have "\<not> P (hd (rev zs))" using hd_ys zs_ne by (simp add: hd_rev)
  moreover have "rev zs \<noteq> []" using zs_ne by simp
  ultimately have "dropWhile P (rev zs) = rev zs"
    by (cases "rev zs") auto
  then show ?thesis by (simp add: zs_def ys_def)
qed

lemma trim_trim: "trim (trim s) = trim s"
  by (simp add: trim_def dropWhile_rev_dropWhile)

lemma trim_nonempty_arg: "trim s \<noteq> [] \<Longrightarrow> s \<noteq> []"
  by (auto simp: trim_def)

lemma find_updateOne:
  "find (\<lambda>d. t_id d = i) db = Some d \<Longrightarrow> t_id (f d) = i \<Longrightarrow>
   find (\<lambda>d. t_id d = i) (updateOne i f db) = Some (f d)"
  by (induction db) (auto split: if_splits)

lemma set_updateOne:
  "set (updateOne i f db) \<subseteq> set db \<union> f ` {d \<in> set db. t_id d = i}"
  by (induction db) auto

lemma post_keeps_nonblank:
  "textsNonBlank db \<Longrightarrow> textsNonBlank (fst (post_todos newId now b db))"
  by (cases "b_text b")
     (auto simp: textsNonBlank_def post_todos_def save_def schemaSetText_def
        schemaTextRequired_def trim_trim Let_def split: if_splits)

lemma patch_keeps_nonblank:
  assumes "textsNonBlank db"
  shows "textsNonBlank (fst (patch_todo M i b db))"
proof (cases "b_text b")
  case (JStr s)
  have upd: "textsNonBlank (updateOne j (\<lambda>d. d\<lparr>t_text := trim (trim s)\<rparr>) db)"
    if "trim s \<noteq> []" for j
    using assms set_updateOne [of j "\<lambda>d. d\<lparr>t_text := trim (trim s)\<rparr>" db] that
    by (auto simp: textsNonBlank_def list_all_iff trim_trim)
  show ?thesis using assms JStr upd
    by (auto simp: patch_todo_def findOneRegexNe_def findByIdAndUpdate_def schemaSetText_def
        split: if_splits option.splits sum.splits)
qed (use assms in \<open>auto simp: patch_todo_def\<close>)

lemma delete_keeps_nonblank:
  "textsNonBlank db \<Longrightarrow> textsNonBlank (fst (delete_todo M i db))"
  using set_remove1_subset
  by (fastforce simp: textsNonBlank_def list_all_iff delete_todo_def findByIdAndDelete_def
      split: if_splits option.splits)

lemma reachable_nonblank: "reachable M db \<Longrightarrow> textsNonBlank db"
proof (induction rule: reachable.induct)
  case start
  show ?case by (simp add: textsNonBlank_def)
qed (simp_all add: post_keeps_nonblank patch_keeps_nonblank delete_keeps_nonblank)

lemma patch_todo_200:
  assumes "patch_todo M i b db = (db', Response 200 p)"
  shows "\<exists>s oid d. b_text b = JStr s \<and> trim s \<noteq> [] \<and> castObjectId M i = Some oid
           \<and> find (\<lambda>d. t_id d = oid) db = Some d
           \<and> p = Doc (d\<lparr>t_text := trim s\<rparr>)
           \<and> db' = updateOne oid (\<lambda>d. d\<lparr>t_text := trim s\<rparr>) db
           \<and> find (\<lambda>d. t_id d = oid) db' = Some (d\<lparr>t_text := trim s\<rparr>)"
proof -
  from assms obtain s where s: "b_text b = JStr s"
    by (cases "b_text b") (auto simp: patch_todo_def split: if_splits)
  from assms s have ne: "trim s \<noteq> []"
    by (auto simp: patch_todo_def split: if_splits)
  from assms s ne obtain oid where oid: "castObjectId M i = Some oid"
    by (cases "castObjectId M i")
       (auto simp: patch_todo_def findOneRegexNe_def split: if_splits)
  from assms s ne oid obtain d where d: "find (\<lambda>d. t_id d = oid) db = Some d"
    and p: "p = Doc (d\<lparr>t_text := trim s\<rparr>)"
    and db': "db' = updateOne oid (\<lambda>d. d\<lparr>t_text := trim s\<rparr>) db"
    by (auto simp: patch_todo_def findByIdAndUpdate_def schemaSetText_def trim_trim
        split: if_splits sum.splits option.splits)
  from d have "t_id d = oid" by (auto simp: find_Some_iff)
  with d have "find (\<lambda>d. t_id d = oid) db' = Some (d\<lparr>t_text := trim s\<rparr>)"
    unfolding db' by (intro find_updateOne) simp_all
  with s ne oid d p db' show ?thesis by blast
qed

lemma patch_todo_status:
  "status (snd (patch_todo M i b db)) \<in> {200, 400, 404, 500}"
  by (auto simp: patch_todo_def split: if_splits sum.splits option.splits)

lemma patch_todo_resolves:
  assumes "patch_todo M i b db = (db', r)" "resolves r"
  shows "\<exists>p. r = Response 200 p"
proof -
  from patch_todo_status [of M i b db] assms have "status r = 200"
    by (auto simp: resolves_def)
  then show ?thesis by (cases r) simp
qed

lemma patch_todo_succeeds:
  assumes "castObjectId M i = Some oid" "trim s \<noteq> []"
    and "compileRegexI M (''^'' @ trim s @ ''$'') = Some m"
    and "find (\<lambda>d. m (t_text d) \<and> t_id d \<noteq> oid) db = None"
    and "find (\<lambda>d. t_id d = oid) db = Some d"
  shows "patch_todo M i \<lparr>b_text = JStr s, b_completed = c\<rparr> db =
           (updateOne oid (\<lambda>d. d\<lparr>t_text := trim s\<rparr>) db, Response 200 (Doc (d\<lparr>t_text := trim s\<rparr>)))"
  using assms trim_nonempty_arg [of s]
  by (simp add: patch_todo_def findOneRegexNe_def findByIdAndUpdate_def schemaSetText_def trim_trim)

lemma find_remove1_distinct:
  assumes "distinct (map t_id db)" "find (\<lambda>d. t_id d = i) db = Some d"
  shows "find (\<lambda>x. t_id x = i) (remove1 d db) = None"
proof -
  from assms(2) have d: "d \<in> set db" "t_id d = i"
    by (auto simp: find_Some_iff)
  from assms(1) have inj: "inj_on t_id (set db)" and dist: "distinct db"
    by (auto simp: distinct_map)
  have "t_id x \<noteq> i" if "x \<in> set (remove1 d db)" for x
  proof
    assume "t_id x = i"
    moreover from that dist have "x \<in> set db" "x \<noteq> d" by auto
    ultimately show False using inj d by (auto dest: inj_onD)
  qed
  then show ?thesis by (auto simp: find_None_iff)
qed

lemma findSorted_desc:
  "sorted_wrt (\<lambda>x y. t_createdAt y \<le> t_createdAt x) (findSorted db)"
proof -
  have "sorted (map (\<lambda>d. - t_createdAt d) (findSorted db))"
    unfolding findSorted_def by (rule sorted_sort_key)
  then show ?thesis by (simp add: sorted_wrt_map)
qed

lemma local_text:
  "l \<in> set (map (\<lambda>d. if t_id d = i then d\<lparr>t_text := s\<rparr> else d) todos) \<Longrightarrow> t_id l = i \<Longrightarrow> t_text l = s"
proof -
  assume "l \<in> set (map (\<lambda>d. if t_id d = i then d\<lparr>t_text := s\<rparr> else d) todos)" and i: "t_id l = i"
  then obtain d where "l = (if t_id d = i then d\<lparr>t_text := s\<rparr> else d)" by (auto simp only: set_map)
  with i show ?thesis by (cases "t_id d = i") simp_all
qed

section \<open>The claims\<close>

text \<open>
  Claim C1. An update request that carries only a \<open>completed\<close> boolean is meant to
  succeed. The handler reads only \<open>text\<close>: with \<open>text\<close> absent its first check answers
  400 "Text is required" and the collection is unchanged, whatever the identifier; the
  client's \<open>completed\<close> branch of \<open>editTodo\<close>, which sends exactly this body, therefore
  always returns that message and leaves its list unchanged.
\<close>

theorem patch_completed_only_rejected:
  "patch_todo M i \<lparr>b_text = JUndefined, b_completed = JBool c\<rparr> db =
     (db, Response 400 (Message (Lit ''Text is required'')))
   \<and> editTodo M i None (Some c) (db, todos) = ((db, todos), Some (Lit ''Text is required''))"
  by (simp add: patch_todo_def editTodo_def resolves_def)

text \<open>
  Claim C2. Creating an item with an empty text fails with 400 "Text is required".
  A text of three spaces is truthy and passes the handler's check \<open>!text\<close> (the check of
  the PATCH handler also tests \<open>text.trim()\<close>): the answer is whatever \<open>save\<close> makes
  of it, and with the schema as the spec gives it that is 400 with the message of the
  validation error, not "Text is required"; nothing is added.
\<close>

theorem post_whitespace_only_passes_guard:
  "post_todos newId now \<lparr>b_text = JStr '''', b_completed = c\<rparr> db =
     (db, Response 400 (Message (Lit ''Text is required'')))
   \<and> post_todos newId now \<lparr>b_text = JStr ''   '', b_completed = c\<rparr> db =
     (case save newId now (JStr ''   '') db of
        Inl e \<Rightarrow> (db, Response 400 (Message (Thrown e)))
      | Inr (db', newTodo) \<Rightarrow> (db', Response 201 (Doc newTodo)))
   \<and> post_todos newId now \<lparr>b_text = JStr ''   '', b_completed = c\<rparr> db =
     (db, Response 400 (Message (Thrown ValidationError)))"
  by (simp add: post_todos_def save_def schemaSetText_def schemaTextRequired_def trim_def
      isWhiteSpace_def)

text \<open>
  Claim C3. An update whose trimmed text equals another item's text up to case is
  meant to fail with "Duplicate todo text". The text is placed in the pattern unescaped:
  for the new text "call mom?" the pattern \<open>^call mom?$\<close> matches "call mo" and
  "call mom" but not the stored "Call mom?", so the update succeeds and two items carry
  the same text up to case.
\<close>

theorem patch_duplicate_not_detected:
  "patch_todo mongo0 ''507f1f77bcf86cd799439011''
       \<lparr>b_text = JStr ''call mom?'', b_completed = JUndefined\<rparr>
       [\<lparr>t_id = ''507f1f77bcf86cd799439011'', t_text = ''Buy milk'', t_completed = False, t_createdAt = 1\<rparr>,
        \<lparr>t_id = ''507f1f77bcf86cd799439012'', t_text = ''Call mom?'', t_completed = False, t_createdAt = 2\<rparr>]
     = ([\<lparr>t_id = ''507f1f77bcf86cd799439011'', t_text = ''call mom?'', t_completed = False, t_createdAt = 1\<rparr>,
         \<lparr>t_id = ''507f1f77bcf86cd799439012'', t_text = ''Call mom?'', t_completed = False, t_createdAt = 2\<rparr>],
        Response 200 (Doc \<lparr>t_id = ''507f1f77bcf86cd799439011'', t_text = ''call mom?'', t_completed = False, t_createdAt = 1\<rparr>))
   \<and> equalIgnoreCase (trim ''call mom?'') ''Call mom?''"
  by code_simp

text \<open>
  Claim C4, as stated, fails: an identifier that does not cast to an ObjectId is
  answered with status 500 and the cast error's message, the status of a store error,
  by delete and by update alike.
\<close>

theorem malformed_id_counterexample:
  "\<not> isObjectIdString ''not-an-id''
   \<and> delete_todo mongo0 ''not-an-id'' [] = ([], Response 500 (Message (Thrown (CastError ''not-an-id''))))
   \<and> patch_todo mongo0 ''not-an-id'' \<lparr>b_text = JStr ''Buy milk'', b_completed = JUndefined\<rparr> []
       = ([], Response 500 (Message (Thrown (CastError ''not-an-id''))))"
  by code_simp

text \<open>
  Claim C4, amended. Delete: a string that does not cast to an ObjectId is answered
  with 500 and the cast error's message; a string that casts to an ObjectId no document
  has, with 404 "Todo not found". Update, for a text that is not blank: a string that
  does not cast is answered with 500 and the cast error's message; a string that casts
  to an ObjectId no document has, when the pattern compiles and the duplicate query
  finds nothing, with 404 "Todo not found". The collection is unchanged in all four
  cases.
\<close>

theorem id_lookup_outcomes:
  "(castObjectId M i = None \<longrightarrow>
      delete_todo M i db = (db, Response 500 (Message (Thrown (CastError i)))))
   \<and> (castObjectId M i = Some oid \<and> find (\<lambda>d. t_id d = oid) db = None \<longrightarrow>
      delete_todo M i db = (db, Response 404 (Message (Lit ''Todo not found''))))
   \<and> (trim s \<noteq> [] \<and> castObjectId M i = None \<longrightarrow>
      patch_todo M i \<lparr>b_text = JStr s, b_completed = c\<rparr> db =
        (db, Response 500 (Message (Thrown (CastError i)))))
   \<and> (trim s \<noteq> [] \<and> castObjectId M i = Some oid \<and> find (\<lambda>d. t_id d = oid) db = None
        \<and> compileRegexI M (''^'' @ trim s @ ''$'') = Some m
        \<and> find (\<lambda>d. m (t_text d) \<and> t_id d \<noteq> oid) db = None \<longrightarrow>
      patch_todo M i \<lparr>b_text = JStr s, b_completed = c\<rparr> db =
        (db, Response 404 (Message (Lit ''Todo not found''))))"
proof -
  have del_bad: "delete_todo M i db = (db, Response 500 (Message (Thrown (CastError i))))"
    if "castObjectId M i = None"
    using that by (simp add: delete_todo_def findByIdAndDelete_def)
  have del_none: "delete_todo M i db = (db, Response 404 (Message (Lit ''Todo not found'')))"
    if "castObjectId M i = Some oid" "find (\<lambda>d. t_id d = oid) db = None"
    using that by (simp add: delete_todo_def findByIdAndDelete_def)
  have patch_bad: "patch_todo M i \<lparr>b_text = JStr s, b_completed = c\<rparr> db =
        (db, Response 500 (Message (Thrown (CastError i))))"
    if "trim s \<noteq> []" "castObjectId M i = None"
    using that trim_nonempty_arg [of s] by (simp add: patch_todo_def findOneRegexNe_def)
  have patch_none: "patch_todo M i \<lparr>b_text = JStr s, b_completed = c\<rparr> db =
        (db, Response 404 (Message (Lit ''Todo not found'')))"
    if "trim s \<noteq> []" "castObjectId M i = Some oid" "find (\<lambda>d. t_id d = oid) db = None"
      "compileRegexI M (''^'' @ trim s @ ''$'') = Some m"
      "find (\<lambda>d. m (t_text d) \<and> t_id d \<noteq> oid) db = None"
    using that trim_nonempty_arg [of s]
    by (simp add: patch_todo_def findOneRegexNe_def findByIdAndUpdate_def)
  from del_bad del_none patch_bad patch_none show ?thesis by blast
qed

theorem id_lookup_outcomes_witness:
  "castObjectId mongo0 ''not-an-id'' = None
   \<and> delete_todo mongo0 ''not-an-id'' [milk] = ([milk], Response 500 (Message (Thrown (CastError ''not-an-id''))))
   \<and> patch_todo mongo0 ''not-an-id'' \<lparr>b_text = JStr '' Walk dog '', b_completed = JUndefined\<rparr> [milk]
       = ([milk], Response 500 (Message (Thrown (CastError ''not-an-id''))))
   \<and> castObjectId mongo0 ''507F1F77BCF86CD799439012'' = Some ''507f1f77bcf86cd799439012''
   \<and> find (\<lambda>d. t_id d = ''507f1f77bcf86cd799439012'') [milk] = None
   \<and> trim '' Walk dog '' \<noteq> []
   \<and> delete_todo mongo0 ''507F1F77BCF86CD799439012'' [milk]
       = ([milk], Response 404 (Message (Lit ''Todo not found'')))
   \<and> patch_todo mongo0 ''507F1F77BCF86CD799439012'' \<lparr>b_text = JStr '' Walk dog '', b_completed = JUndefined\<rparr> [milk]
       = ([milk], Response 404 (Message (Lit ''Todo not found'')))"
proof -
  have bad: "castObjectId mongo0 ''not-an-id'' = None" by code_simp
  have good: "castObjectId mongo0 ''507F1F77BCF86CD799439012'' = Some ''507f1f77bcf86cd799439012''"
    by code_simp
  have absent: "find (\<lambda>d. t_id d = ''507f1f77bcf86cd799439012'') [milk] = None" by code_simp
  have ne: "trim '' Walk dog '' \<noteq> []" by code_simp
  define ts where "ts = the (groupItems (lexItems (''^'' @ trim '' Walk dog '' @ ''$'')))"
  define m where "m = matchAnywhere True ts"
  have "groupItems (lexItems (''^'' @ trim '' Walk dog '' @ ''$'')) = Some ts"
    unfolding ts_def by code_simp
  then have m: "compileRegexI mongo0 (''^'' @ trim '' Walk dog '' @ ''$'') = Some m"
    by (simp add: mongo0_def regexI_def m_def)
  have nodup: "find (\<lambda>d. m (t_text d) \<and> t_id d \<noteq> ''507f1f77bcf86cd799439012'') [milk] = None"
    unfolding m_def ts_def by code_simp
  note a = id_lookup_outcomes [where M = mongo0 and i = "''not-an-id''" and db = "[milk]"
      and s = "'' Walk dog ''" and c = JUndefined]
  note b = id_lookup_outcomes [where M = mongo0 and i = "''507F1F77BCF86CD799439012''"
      and oid = "''507f1f77bcf86cd799439012''" and db = "[milk]"
      and s = "'' Walk dog ''" and c = JUndefined and m = m]
  from a bad ne b good absent m nodup show ?thesis by blast
qed

text \<open>
  Claim C5 (the schema of the model is the one the spec describes). For every text
  that is not blank, \<open>POST /api/todos\<close> appends and returns a document whose text is
  the trimmed input, with \<open>completed\<close> false and the given identifier and time; and in
  every collection the handlers can produce from the empty one, each stored text is
  non-empty after trimming.
\<close>

theorem post_todos_stores_trimmed:
  "(trim s \<noteq> [] \<longrightarrow>
      post_todos newId now \<lparr>b_text = JStr s, b_completed = c\<rparr> db =
        (db @ [\<lparr>t_id = newId, t_text = trim s, t_completed = False, t_createdAt = now\<rparr>],
         Response 201 (Doc \<lparr>t_id = newId, t_text = trim s, t_completed = False, t_createdAt = now\<rparr>)))
   \<and> (reachable M db' \<longrightarrow> list_all (\<lambda>d. trim (t_text d) \<noteq> []) db')"
proof -
  have "post_todos newId now \<lparr>b_text = JStr s, b_completed = c\<rparr> db =
        (db @ [\<lparr>t_id = newId, t_text = trim s, t_completed = False, t_createdAt = now\<rparr>],
         Response 201 (Doc \<lparr>t_id = newId, t_text = trim s, t_completed = False, t_createdAt = now\<rparr>))"
    if "trim s \<noteq> []"
    using that trim_nonempty_arg [of s]
    by (simp add: post_todos_def save_def schemaSetText_def schemaTextRequired_def Let_def)
  moreover have "list_all (\<lambda>d. trim (t_text d) \<noteq> []) db'" if "reachable M db'"
    using reachable_nonblank [OF that] by (simp add: textsNonBlank_def)
  ultimately show ?thesis by blast
qed

theorem post_todos_stores_trimmed_witness:
  "trim ''  Buy milk '' \<noteq> []
   \<and> post_todos ''507f1f77bcf86cd799439011'' 1 \<lparr>b_text = JStr ''  Buy milk '', b_completed = JUndefined\<rparr> []
       = ([milk], Response 201 (Doc milk))
   \<and> reachable mongo0 [milk]
   \<and> list_all (\<lambda>d. trim (t_text d) \<noteq> []) [milk]"
proof -
  have ne: "trim ''  Buy milk '' \<noteq> []" by code_simp
  have tr: "trim ''  Buy milk '' = ''Buy milk''" by code_simp
  note t = post_todos_stores_trimmed [where s = "''  Buy milk ''" and newId = "''507f1f77bcf86cd799439011''"
      and now = 1 and c = JUndefined and db = "[]" and M = mongo0 and db' = "[milk]"]
  from t ne have p: "post_todos ''507f1f77bcf86cd799439011'' 1
      \<lparr>b_text = JStr ''  Buy milk '', b_completed = JUndefined\<rparr> [] = ([milk], Response 201 (Doc milk))"
    by (simp add: tr milk_def)
  have "reachable mongo0 (fst (post_todos ''507f1f77bcf86cd799439011'' 1
      \<lparr>b_text = JStr ''  Buy milk '', b_completed = JUndefined\<rparr> []))"
    by (rule reachable.post) (rule reachable.start)
  with p have r: "reachable mongo0 [milk]" by simp
  with t have "list_all (\<lambda>d. trim (t_text d) \<noteq> []) [milk]" by blast
  with ne p r show ?thesis by blast
qed

text \<open>
  Claim C6. \<open>GET /api/todos\<close> answers 200 with all stored documents (the same
  multiset) in descending order of \<open>createdAt\<close>, and leaves the collection as it is. In
  particular, after creating A at time \<open>ta\<close> and then B at a later time \<open>tb\<close> in the
  empty collection, the list is B, A.
\<close>

theorem get_todos_newest_first:
  "get_todos db = (db, Response 200 (Docs (findSorted db)))
   \<and> mset (findSorted db) = mset db
   \<and> sorted_wrt (\<lambda>x y. t_createdAt y \<le> t_createdAt x) (findSorted db)
   \<and> (trim a \<noteq> [] \<and> trim b \<noteq> [] \<and> ta < tb \<longrightarrow>
        snd (get_todos (fst (post_todos ib tb \<lparr>b_text = JStr b, b_completed = cb\<rparr>
               (fst (post_todos ia ta \<lparr>b_text = JStr a, b_completed = ca\<rparr> [])))))
        = Response 200 (Docs
            [\<lparr>t_id = ib, t_text = trim b, t_completed = False, t_createdAt = tb\<rparr>,
             \<lparr>t_id = ia, t_text = trim a, t_completed = False, t_createdAt = ta\<rparr>]))"
proof -
  have "snd (get_todos (fst (post_todos ib tb \<lparr>b_text = JStr b, b_completed = cb\<rparr>
               (fst (post_todos ia ta \<lparr>b_text = JStr a, b_completed = ca\<rparr> [])))))
        = Response 200 (Docs
            [\<lparr>t_id = ib, t_text = trim b, t_completed = False, t_createdAt = tb\<rparr>,
             \<lparr>t_id = ia, t_text = trim a, t_completed = False, t_createdAt = ta\<rparr>])"
    if "trim a \<noteq> []" "trim b \<noteq> []" "ta < tb"
    using that trim_nonempty_arg [of a] trim_nonempty_arg [of b]
    by (simp add: get_todos_def post_todos_def save_def schemaSetText_def schemaTextRequired_def
        Let_def findSorted_def)
  moreover have "mset (findSorted db) = mset db"
    by (simp add: findSorted_def)
  ultimately show ?thesis
    using findSorted_desc [of db] by (simp add: get_todos_def)
qed

theorem get_todos_newest_first_witness:
  "trim ''Buy milk'' \<noteq> [] \<and> trim '' Call mom? '' \<noteq> [] \<and> (1::int) < 2
   \<and> snd (get_todos (fst (post_todos ''507f1f77bcf86cd799439012'' 2 \<lparr>b_text = JStr '' Call mom? '', b_completed = JUndefined\<rparr>
        (fst (post_todos ''507f1f77bcf86cd799439011'' 1 \<lparr>b_text = JStr ''Buy milk'', b_completed = JUndefined\<rparr> [])))))
     = Response 200 (Docs [mom, milk])
   \<and> sorted_wrt (\<lambda>x y. t_createdAt y \<le> t_createdAt x) (findSorted [milk, mom])"
proof -
  have ne: "trim ''Buy milk'' \<noteq> []" "trim '' Call mom? '' \<noteq> []" by code_simp+
  have tr: "trim ''Buy milk'' = ''Buy milk''" "trim '' Call mom? '' = ''Call mom?''" by code_simp+
  note t = get_todos_newest_first [where a = "''Buy milk''" and b = "'' Call mom? ''" and ta = 1 and tb = 2
      and ia = "''507f1f77bcf86cd799439011''" and ib = "''507f1f77bcf86cd799439012''"
      and ca = JUndefined and cb = JUndefined and db = "[milk, mom]"]
  from t ne show ?thesis by (simp add: tr milk_def mom_def)
qed

text \<open>
  Claim C7. For an existing identifier and a valid text that duplicates no other
  item's text, the update is meant to store the trimmed text and return the item as it
  is afterwards. The duplicate query reads the text as a pattern: with the items
  "Buy milk!" and "Call mom?" stored, the update of the second to the text " Buy milk. "
  (its identifier is stored, the trimmed text "Buy milk." is not blank and equals no
  other item's text up to case) builds the pattern \<open>^Buy milk.$\<close>, which matches
  "Buy milk!"; the answer is 400 "Duplicate todo text" and nothing is stored.
\<close>

theorem patch_nonduplicate_rejected:
  "castObjectId mongo0 ''507f1f77bcf86cd799439012'' = Some ''507f1f77bcf86cd799439012''
   \<and> find (\<lambda>d. t_id d = ''507f1f77bcf86cd799439012'')
       [\<lparr>t_id = ''507f1f77bcf86cd799439011'', t_text = ''Buy milk!'', t_completed = False, t_createdAt = 1\<rparr>,
        \<lparr>t_id = ''507f1f77bcf86cd799439012'', t_text = ''Call mom?'', t_completed = False, t_createdAt = 2\<rparr>]
     = Some \<lparr>t_id = ''507f1f77bcf86cd799439012'', t_text = ''Call mom?'', t_completed = False, t_createdAt = 2\<rparr>
   \<and> trim '' Buy milk. '' = ''Buy milk.''
   \<and> filter (\<lambda>d. t_id d \<noteq> ''507f1f77bcf86cd799439012'' \<and> equalIgnoreCase (t_text d) (trim '' Buy milk. ''))
       [\<lparr>t_id = ''507f1f77bcf86cd799439011'', t_text = ''Buy milk!'', t_completed = False, t_createdAt = 1\<rparr>,
        \<lparr>t_id = ''507f1f77bcf86cd799439012'', t_text = ''Call mom?'', t_completed = False, t_createdAt = 2\<rparr>] = []
   \<and> patch_todo mongo0 ''507f1f77bcf86cd799439012''
       \<lparr>b_text = JStr '' Buy milk. '', b_completed = JUndefined\<rparr>
       [\<lparr>t_id = ''507f1f77bcf86cd799439011'', t_text = ''Buy milk!'', t_completed = False, t_createdAt = 1\<rparr>,
        \<lparr>t_id = ''507f1f77bcf86cd799439012'', t_text = ''Call mom?'', t_completed = False, t_createdAt = 2\<rparr>]
     = ([\<lparr>t_id = ''507f1f77bcf86cd799439011'', t_text = ''Buy milk!'', t_completed = False, t_createdAt = 1\<rparr>,
         \<lparr>t_id = ''507f1f77bcf86cd799439012'', t_text = ''Call mom?'', t_completed = False, t_createdAt = 2\<rparr>],
        Response 400 (Message (Lit ''Duplicate todo text'')))"
  by code_simp

text \<open>
  Claim C8, as stated, fails for an identifier that is not well-formed: no document
  has the identifier "42", and the answer is not 404 "Todo not found" (it is 500 with the
  cast error's message).
\<close>

theorem delete_malformed_id_counterexample:
  "find (\<lambda>d. t_id d = ''42'')
       [\<lparr>t_id = ''507f1f77bcf86cd799439011'', t_text = ''Buy milk'', t_completed = False, t_createdAt = 1\<rparr>] = None
   \<and> delete_todo mongo0 ''42''
       [\<lparr>t_id = ''507f1f77bcf86cd799439011'', t_text = ''Buy milk'', t_completed = False, t_createdAt = 1\<rparr>]
     \<noteq> ([\<lparr>t_id = ''507f1f77bcf86cd799439011'', t_text = ''Buy milk'', t_completed = False, t_createdAt = 1\<rparr>],
         Response 404 (Message (Lit ''Todo not found'')))"
  by code_simp

text \<open>
  Claim C8, amended. For a string that casts to an ObjectId: when no document has that
  ObjectId, delete answers 404 "Todo not found", the collection is unchanged and so is
  a subsequent listing; when a document has it, delete answers 200 with the message
  "Todo deleted successfully" and removes exactly that document (one occurrence in the
  multiset; no document with the identifier is left when identifiers are distinct).
\<close>

theorem delete_todo_outcomes:
  assumes "castObjectId M i = Some oid"
  shows "(find (\<lambda>d. t_id d = oid) db = None \<longrightarrow>
            delete_todo M i db = (db, Response 404 (Message (Lit ''Todo not found'')))
          \<and> get_todos (fst (delete_todo M i db)) = get_todos db)
       \<and> (find (\<lambda>d. t_id d = oid) db = Some d \<longrightarrow>
            delete_todo M i db = (remove1 d db, Response 200 (Message (Lit ''Todo deleted successfully'')))
          \<and> t_id d = oid
          \<and> mset (remove1 d db) = mset db - {#d#}
          \<and> (distinct (map t_id db) \<longrightarrow> find (\<lambda>x. t_id x = oid) (remove1 d db) = None))"
proof -
  have "t_id d = oid" if "find (\<lambda>d. t_id d = oid) db = Some d"
    using that by (auto simp: find_Some_iff)
  then show ?thesis
    using assms find_remove1_distinct [of db oid d]
    by (auto simp: delete_todo_def findByIdAndDelete_def)
qed

theorem delete_todo_outcomes_witness:
  "castObjectId mongo0 ''507F1F77BCF86CD799439011'' = Some ''507f1f77bcf86cd799439011''
   \<and> castObjectId mongo0 ''507f1f77bcf86cd799439013'' = Some ''507f1f77bcf86cd799439013''
   \<and> find (\<lambda>d. t_id d = ''507f1f77bcf86cd799439013'') [milk, mom] = None
   \<and> delete_todo mongo0 ''507f1f77bcf86cd799439013'' [milk, mom]
       = ([milk, mom], Response 404 (Message (Lit ''Todo not found'')))
   \<and> find (\<lambda>d. t_id d = ''507f1f77bcf86cd799439011'') [milk, mom] = Some milk
   \<and> distinct (map t_id [milk, mom])
   \<and> delete_todo mongo0 ''507F1F77BCF86CD799439011'' [milk, mom]
       = ([mom], Response 200 (Message (Lit ''Todo deleted successfully'')))
   \<and> find (\<lambda>x. t_id x = ''507f1f77bcf86cd799439011'') (remove1 milk [milk, mom]) = None"
proof -
  have c1: "castObjectId mongo0 ''507F1F77BCF86CD799439011'' = Some ''507f1f77bcf86cd799439011''"
    by code_simp
  have c3: "castObjectId mongo0 ''507f1f77bcf86cd799439013'' = Some ''507f1f77bcf86cd799439013''"
    by code_simp
  have f3: "find (\<lambda>d. t_id d = ''507f1f77bcf86cd799439013'') [milk, mom] = None" by code_simp
  have f1: "find (\<lambda>d. t_id d = ''507f1f77bcf86cd799439011'') [milk, mom] = Some milk" by code_simp
  have di: "distinct (map t_id [milk, mom])" by code_simp
  have rm: "remove1 milk [milk, mom] = [mom]" by code_simp
  note a = delete_todo_outcomes [OF c3, where db = "[milk, mom]"]
  note b = delete_todo_outcomes [OF c1, where db = "[milk, mom]" and d = milk]
  note r404 = a [THEN conjunct1, THEN mp, OF f3, THEN conjunct1]
  note found = b [THEN conjunct2, THEN mp, OF f1]
  note r200 = found [THEN conjunct1]
  note gone = found [THEN conjunct2, THEN conjunct2, THEN conjunct2, THEN mp, OF di]
  from r200 have r200': "delete_todo mongo0 ''507F1F77BCF86CD799439011'' [milk, mom]
       = ([mom], Response 200 (Message (Lit ''Todo deleted successfully'')))"
    by (simp only: rm)
  from c1 c3 f3 r404 f1 di r200' gone show ?thesis by (intro conjI)
qed

text \<open>
  Claim C9. The duplicate check places the trimmed text unescaped between \<open>^\<close> and
  \<open>$\<close>. For the new text "a.b" and another item "axb" the update is rejected with
  "Duplicate todo text", although no other item's text equals "a.b" up to case.
\<close>

theorem regex_false_duplicate:
  "patch_todo mongo0 ''507f1f77bcf86cd799439011''
       \<lparr>b_text = JStr ''a.b'', b_completed = JUndefined\<rparr>
       [\<lparr>t_id = ''507f1f77bcf86cd799439011'', t_text = ''old'', t_completed = False, t_createdAt = 1\<rparr>,
        \<lparr>t_id = ''507f1f77bcf86cd799439012'', t_text = ''axb'', t_completed = False, t_createdAt = 2\<rparr>]
     = ([\<lparr>t_id = ''507f1f77bcf86cd799439011'', t_text = ''old'', t_completed = False, t_createdAt = 1\<rparr>,
         \<lparr>t_id = ''507f1f77bcf86cd799439012'', t_text = ''axb'', t_completed = False, t_createdAt = 2\<rparr>],
        Response 400 (Message (Lit ''Duplicate todo text'')))
   \<and> filter (\<lambda>d. t_id d \<noteq> ''507f1f77bcf86cd799439011'' \<and> equalIgnoreCase (t_text d) (trim ''a.b''))
       [\<lparr>t_id = ''507f1f77bcf86cd799439011'', t_text = ''old'', t_completed = False, t_createdAt = 1\<rparr>,
        \<lparr>t_id = ''507f1f77bcf86cd799439012'', t_text = ''axb'', t_completed = False, t_createdAt = 2\<rparr>] = []"
  by code_simp

text \<open>
  Claim C10. When \<open>editTodo\<close> succeeds on a text that is not blank and carries
  surrounding white space, the client's list is the old one with the text of the edited
  item set to the text as given, the server's document with that identifier (the
  ObjectId the string casts to) holds the trimmed text, and every local item with the
  identifier differs from the server's document.
\<close>

theorem editTodo_keeps_untrimmed_text:
  assumes "editTodo M i (Some s) c (db, todos) = ((db', todos'), None)"
    and "trim s \<noteq> []" and "trim s \<noteq> s"
  shows "todos' = map (\<lambda>d. if t_id d = i then d\<lparr>t_text := s\<rparr> else d) todos
       \<and> (\<exists>oid d. castObjectId M i = Some oid
              \<and> find (\<lambda>d. t_id d = oid) db' = Some d \<and> t_text d = trim s
              \<and> list_all (\<lambda>l. t_id l = i \<longrightarrow> t_text l = s \<and> l \<noteq> d) todos')"
proof -
  obtain db1 r where run: "patch_todo M i \<lparr>b_text = JStr s, b_completed = JUndefined\<rparr> db = (db1, r)"
    by (cases "patch_todo M i \<lparr>b_text = JStr s, b_completed = JUndefined\<rparr> db")
  with assms have res: "resolves r" and db1: "db1 = db'"
    and todos': "todos' = map (\<lambda>d. if t_id d = i then d\<lparr>t_text := s\<rparr> else d) todos"
    by (auto simp: editTodo_def split: if_splits)
  from patch_todo_resolves [OF run res] obtain p where "r = Response 200 p" ..
  with run db1 have "patch_todo M i \<lparr>b_text = JStr s, b_completed = JUndefined\<rparr> db = (db', Response 200 p)"
    by simp
  from patch_todo_200 [OF this] obtain oid d0
    where oid: "castObjectId M i = Some oid"
      and srv: "find (\<lambda>d. t_id d = oid) db' = Some (d0\<lparr>t_text := trim s\<rparr>)"
    by auto
  define d where "d = d0\<lparr>t_text := trim s\<rparr>"
  have d_text: "t_text d = trim s" by (simp add: d_def)
  have local: "t_text l = s \<and> l \<noteq> d" if "l \<in> set todos'" "t_id l = i" for l
  proof
    from that show "t_text l = s" unfolding todos' by (rule local_text)
    with d_text assms(3) show "l \<noteq> d" by metis
  qed
  then have "list_all (\<lambda>l. t_id l = i \<longrightarrow> t_text l = s \<and> l \<noteq> d) todos'"
    unfolding list_all_iff by blast
  with oid srv d_text todos' show ?thesis unfolding d_def [symmetric] by blast
qed

theorem editTodo_keeps_untrimmed_text_witness:
  "editTodo mongo0 ''507f1f77bcf86cd799439011'' (Some '' Buy oat milk  '') None ([milk, mom], [mom, milk])
     = (([milk\<lparr>t_text := ''Buy oat milk''\<rparr>, mom], [mom, milk\<lparr>t_text := '' Buy oat milk  ''\<rparr>]), None)
   \<and> trim '' Buy oat milk  '' \<noteq> [] \<and> trim '' Buy oat milk  '' \<noteq> '' Buy oat milk  ''
   \<and> (\<exists>oid d. castObjectId mongo0 ''507f1f77bcf86cd799439011'' = Some oid
          \<and> find (\<lambda>d. t_id d = oid) [milk\<lparr>t_text := ''Buy oat milk''\<rparr>, mom] = Some d
          \<and> t_text d = trim '' Buy oat milk  ''
          \<and> list_all (\<lambda>l. t_id l = ''507f1f77bcf86cd799439011'' \<longrightarrow> t_text l = '' Buy oat milk  '' \<and> l \<noteq> d)
               [mom, milk\<lparr>t_text := '' Buy oat milk  ''\<rparr>])"
proof -
  have run: "editTodo mongo0 ''507f1f77bcf86cd799439011'' (Some '' Buy oat milk  '') None ([milk, mom], [mom, milk])
     = (([milk\<lparr>t_text := ''Buy oat milk''\<rparr>, mom], [mom, milk\<lparr>t_text := '' Buy oat milk  ''\<rparr>]), None)"
    by code_simp
  have ne: "trim '' Buy oat milk  '' \<noteq> []" by code_simp
  have ws: "trim '' Buy oat milk  '' \<noteq> '' Buy oat milk  ''" by code_simp
  note srv = editTodo_keeps_untrimmed_text [OF run ne ws, THEN conjunct2]
  from run ne ws srv show ?thesis by (intro conjI)
qed

end
